theory Spec2Isabelle
  imports Complex_Main "HOL-Library.Word"
begin

section \<open>Strings and numbers of the source language\<close>

text \<open>
  A TypeScript string is a sequence of UTF-16 code units: \<open>length\<close> counts code units and
  \<open>trim\<close> removes code units. String literals of the source are ASCII and are written
  through \<open>js\<close>.
\<close>

type_synonym code_unit = "16 word"
type_synonym jsstring = "code_unit list"

definition js :: "string \<Rightarrow> jsstring" where
  "js s = map (\<lambda>c. of_nat (of_char c)) s"

text \<open>
  \<open>String.prototype.trim\<close> removes the WhiteSpace and LineTerminator code points from both
  ends: TAB, LF, VT, FF, CR, SPACE, NBSP, U+1680, U+2000 to U+200A, U+2028, U+2029, U+202F,
  U+205F, U+3000 and U+FEFF. All of them are single code units.
\<close>

definition isWhiteSpace :: "code_unit \<Rightarrow> bool" where
  "isWhiteSpace c \<longleftrightarrow>
     c = 0x0009 \<or> c = 0x000A \<or> c = 0x000B \<or> c = 0x000C \<or> c = 0x000D \<or> c = 0x0020 \<or>
     c = 0x00A0 \<or> c = 0x1680 \<or> (0x2000 \<le> c \<and> c \<le> 0x200A) \<or> c = 0x2028 \<or> c = 0x2029 \<or>
     c = 0x202F \<or> c = 0x205F \<or> c = 0x3000 \<or> c = 0xFEFF"

definition trim :: "jsstring \<Rightarrow> jsstring" where
  "trim s = rev (dropWhile isWhiteSpace (rev (dropWhile isWhiteSpace s)))"

text \<open>
  A \<open>number\<close> is a double: NaN, one of the two infinities, or a finite double, which is
  kept as the real number it denotes exactly (both zeros are the real 0). A numeric
  literal of the source stands for the double nearest to it, so the comparisons below
  are those of the doubles. The numbers of this file come from replies and literals; no
  arithmetic is done on them, so no rounding arises.
\<close>

datatype number = NaN | Infinity | MinusInfinity | Num real

text \<open>
  The doubles that the literals \<open>0.8\<close> and \<open>0.6\<close> of \<open>getConfidenceColor\<close> denote:
  \<open>0.8000000000000000444...\<close> and \<open>0.5999999999999999777...\<close>, multiples of \<open>2^-53\<close>.
\<close>

definition literal_0_8 :: real where
  "literal_0_8 = 7205759403792794 / 2 ^ 53"

definition literal_0_6 :: real where
  "literal_0_6 = 5404319552844595 / 2 ^ 53"

text \<open>\<open>!x\<close> for an optional number: true for \<open>undefined\<close>, \<open>0\<close> and NaN.\<close>

fun falsyNumber :: "number option \<Rightarrow> bool" where
  "falsyNumber None = True"
| "falsyNumber (Some NaN) = True"
| "falsyNumber (Some Infinity) = False"
| "falsyNumber (Some MinusInfinity) = False"
| "falsyNumber (Some (Num r)) = (r = 0)"

text \<open>
  \<open>x >= c\<close> for a number and the finite double \<open>c\<close> of a literal: false for NaN, true for
  \<open>Infinity\<close>, false for \<open>-Infinity\<close>.
\<close>

fun geq :: "number \<Rightarrow> real \<Rightarrow> bool" where
  "geq NaN c = False"
| "geq Infinity c = True"
| "geq MinusInfinity c = False"
| "geq (Num r) c = (c \<le> r)"

text \<open>Reading an array at an index: \<open>undefined\<close> (here \<open>None\<close>) out of range.\<close>

definition at_index :: "'a list \<Rightarrow> nat \<Rightarrow> 'a option" where
  "at_index xs i = (if i < length xs then Some (xs ! i) else None)"

section \<open>ChatPage.tsx\<close>

datatype MessageType = user | assistant

text \<open>
  \<open>interface Message\<close>. The optional fields are options. \<open>id\<close> is the decimal string of a
  clock reading and \<open>timestamp\<close> a \<open>Date\<close>; both are kept as the clock reading itself.
\<close>

record Message =
  id_m :: nat
  type_m :: MessageType
  content :: jsstring
  sources :: "jsstring list option"
  sqlExecuted :: "jsstring option"
  confidence :: "number option"
  route :: "jsstring option"
  timestamp :: nat

text \<open>\<open>interface QueryResponse\<close>, the body of the reply to \<open>POST /api/query\<close>.\<close>

record QueryResponse =
  answer :: jsstring
  sources :: "jsstring list"
  sql_executed :: "jsstring option"
  confidence :: number
  route :: jsstring

definition getRouteColor :: "jsstring option \<Rightarrow> jsstring" where
  "getRouteColor r =
     (if r = Some (js ''sql'') then js ''bg-blue-100 text-blue-800''
      else if r = Some (js ''docs'') then js ''bg-green-100 text-green-800''
      else if r = Some (js ''web'') then js ''bg-purple-100 text-purple-800''
      else js ''bg-gray-100 text-gray-800'')"

definition getRouteLabel :: "jsstring option \<Rightarrow> jsstring" where
  "getRouteLabel r =
     (if r = Some (js ''sql'') then js ''SQL Agent''
      else if r = Some (js ''docs'') then js ''Documents''
      else if r = Some (js ''web'') then js ''Web Search''
      else js ''Unknown'')"

definition getConfidenceColor :: "number option \<Rightarrow> jsstring" where
  "getConfidenceColor c =
     (if falsyNumber c then js ''bg-gray-100 text-gray-800''
      else if geq (the c) literal_0_8 then js ''bg-green-100 text-green-800''
      else if geq (the c) literal_0_6 then js ''bg-yellow-100 text-yellow-800''
      else js ''bg-red-100 text-red-800'')"

text \<open>
  The two badges under an assistant message, as the JSX renders them:
  \<open>message.route && <span className={getRouteColor(..)}>{getRouteLabel(..)}</span>\<close> and
  \<open>message.confidence !== undefined && <span className={getConfidenceColor(..)}>..</span>\<close>.
  \<open>None\<close> is "no badge"; the route badge is its class and its label, the confidence badge
  its class.
\<close>

definition routeBadge :: "Message \<Rightarrow> (jsstring \<times> jsstring) option" where
  "routeBadge m =
     (if type_m m = assistant then
        (case Message.route m of
           None \<Rightarrow> None
         | Some r \<Rightarrow> if r = [] then None
                     else Some (getRouteColor (Some r), getRouteLabel (Some r)))
      else None)"

definition confidenceBadge :: "Message \<Rightarrow> jsstring option" where
  "confidenceBadge m =
     (if type_m m = assistant then
        (case Message.confidence m of
           None \<Rightarrow> None
         | Some c \<Rightarrow> Some (getConfidenceColor (Some c)))
      else None)"

text \<open>
  The component's state, and \<open>handleSubmit\<close>. The request \<open>axios.post(.., {query})\<close> is
  the parameter \<open>post\<close>: \<open>Some\<close> of the reply's body, or \<open>None\<close> when the call throws. The
  clock readings at the submission and at the reply are \<open>t0\<close> and \<open>t1\<close>. The result is
  the state once the handler has finished, with the queries it posted.
\<close>

record ChatState =
  messages :: "Message list"
  inputValue :: jsstring
  isLoading :: bool

definition handleSubmit ::
  "(jsstring \<Rightarrow> QueryResponse option) \<Rightarrow> nat \<Rightarrow> nat \<Rightarrow> ChatState \<Rightarrow> ChatState \<times> jsstring list" where
  "handleSubmit post t0 t1 st =
     (if trim (inputValue st) = [] \<or> isLoading st then (st, [])
      else
        let userMessage =
              \<lparr>id_m = t0, type_m = user, content = inputValue st, Message.sources = None,
               sqlExecuted = None, Message.confidence = None, Message.route = None,
               timestamp = t0\<rparr>;
            reply =
              (case post (inputValue st) of
                 Some d \<Rightarrow>
                   \<lparr>id_m = t1 + 1, type_m = assistant, content = answer d,
                    Message.sources = Some (QueryResponse.sources d),
                    sqlExecuted = sql_executed d,
                    Message.confidence = Some (QueryResponse.confidence d),
                    Message.route = Some (QueryResponse.route d), timestamp = t1\<rparr>
               | None \<Rightarrow>
                   \<lparr>id_m = t1 + 1, type_m = assistant,
                    content = js ''Sorry, I encountered an error while processing your request. Please try again.'',
                    Message.sources = None, sqlExecuted = None, Message.confidence = None,
                    Message.route = None, timestamp = t1\<rparr>)
        in (\<lparr>messages = messages st @ [userMessage, reply], inputValue = [], isLoading = False\<rparr>,
            [inputValue st]))"

text \<open>
  The submit button's \<open>disabled={isLoading || !inputValue.trim()}\<close>.
\<close>

definition submitDisabled :: "ChatState \<Rightarrow> bool" where
  "submitDisabled st \<longleftrightarrow> isLoading st \<or> trim (inputValue st) = []"

section \<open>TestPage.tsx\<close>

definition colors :: "jsstring list" where
  "colors =
     [js ''bg-red-100 text-red-800'',
      js ''bg-yellow-100 text-yellow-800'',
      js ''bg-green-100 text-green-800'',
      js ''bg-blue-100 text-blue-800'',
      js ''bg-indigo-100 text-indigo-800'',
      js ''bg-purple-100 text-purple-800'',
      js ''bg-pink-100 text-pink-800'']"

definition getCategoryColor :: "jsstring \<Rightarrow> jsstring option" where
  "getCategoryColor category = at_index colors (length category mod length colors)"

section \<open>DocumentsPage.tsx\<close>

text \<open>\<open>interface Document\<close>, an entry of the reply to \<open>GET /api/documents\<close>.\<close>

record Document =
  id_d :: jsstring
  name :: jsstring
  chunk_count :: nat

text \<open>
  The \<open>accept\<close> table given to \<open>useDropzone\<close>: the declared (MIME) types the page lets
  through, each with its file extensions.
\<close>

definition accept :: "(jsstring \<times> jsstring list) list" where
  "accept =
     [(js ''application/pdf'', [js ''.pdf'']),
      (js ''text/plain'', [js ''.txt'']),
      (js ''text/markdown'', [js ''.md'']),
      (js ''application/vnd.openxmlformats-officedocument.wordprocessingml.document'',
       [js ''.docx''])]"

section \<open>The document indexing pipeline\<close>

text \<open>
  The server that indexes, removes and lists documents is not among the sources; the
  page above is its caller. This section models it from the specification.
\<close>

text \<open>Modelled from the spec: the error taxonomy of section 7 (the server's typed failures).\<close>

datatype error =
  ValidationError | UnsupportedFormat | ExtractionFailure | NotFound |
  TranslationFailure | ExecutionError | GenerationError | RouteTimeout

text \<open>
  Modelled from the spec: the \<open>Chunk\<close> of section 3, \<open>{id, documentId, text,
  positionalOrder}\<close>. The server's chunk identifiers are missing; a chunk is identified
  here by its document and its position.
\<close>

record Chunk =
  id_c :: "jsstring \<times> nat"
  documentId :: jsstring
  text_c :: jsstring
  positionalOrder :: nat

text \<open>
  Modelled from the spec: the server's store of indexed documents and their chunks, both
  in insertion order. A \<open>DocumentRecord\<close> of the specification is a \<open>Document\<close>.
\<close>

record IndexStore =
  documents :: "Document list"
  chunks :: "Chunk list"

text \<open>
  Modelled from the spec: what the pipeline is configured with and calls (section 4.2):
  the text extractor, the allocator of document identifiers, and the chunk length and
  overlap. The extractor yields the text of a file part by part, \<open>None\<close> for a part it
  cannot read ("a simulated extraction failure midway through chunking", section 8).
\<close>

record Indexer =
  extractText :: "jsstring \<Rightarrow> 8 word list \<Rightarrow> jsstring option list"
  newId :: "Document list \<Rightarrow> jsstring"
  chunkLength :: nat
  overlap :: nat

text \<open>
  Modelled from the spec: "splits into chunks by a bounded-size policy (fixed chunk length
  with optional overlap, both configurable) preserving original order". Each chunk starts
  \<open>n - k\<close> code units after the one before; a configuration that would not advance
  (\<open>n = 0\<close> or \<open>n \<le> k\<close>) keeps the text in one chunk.
\<close>

function split :: "nat \<Rightarrow> nat \<Rightarrow> 'a list \<Rightarrow> 'a list list" where
  "split n k xs =
     (if xs = [] then []
      else if n = 0 \<or> n \<le> k \<or> length xs \<le> n then [xs]
      else take n xs # split n k (drop (n - k) xs))"
  by pat_completeness auto
termination
  by (relation "measure (\<lambda>(n, k, xs). length xs)") auto

declare split.simps [simp del]

text \<open>
  Modelled from the spec: "extracts text; splits into chunks". The parts are split one
  after the other and the pieces collected; the first part that cannot be extracted ends
  the work with no pieces at all.
\<close>

fun chunkParts :: "nat \<Rightarrow> nat \<Rightarrow> jsstring option list \<Rightarrow> jsstring list \<Rightarrow> jsstring list option" where
  "chunkParts n k [] pending = Some pending"
| "chunkParts n k (None # parts) pending = None"
| "chunkParts n k (Some t # parts) pending = chunkParts n k parts (pending @ split n k t)"

text \<open>Modelled from the spec: the chunks of one document, numbered in order.\<close>

definition mkChunks :: "jsstring \<Rightarrow> jsstring list \<Rightarrow> Chunk list" where
  "mkChunks d pieces =
     map (\<lambda>(i, t). \<lparr>id_c = (d, i), documentId = d, text_c = t, positionalOrder = i\<rparr>)
       (enumerate 0 pieces)"

text \<open>
  Modelled from the spec: \<open>index(name, byteStream, declaredType)\<close> of section 4.2:
  "validates declaredType is one of the supported formats; extracts text; splits into
  chunks; stores chunks keyed by document id; returns the DocumentRecord with final
  chunkCount. Fails with an UnsupportedFormat error for unrecognized types and with an
  ExtractionFailure error if text cannot be extracted". The supported types are those of
  the page's \<open>accept\<close> table. The document and its chunks are stored together, once
  all pieces are there. The result is the outcome and the store afterwards.
\<close>

definition index ::
  "Indexer \<Rightarrow> IndexStore \<Rightarrow> jsstring \<Rightarrow> 8 word list \<Rightarrow> jsstring \<Rightarrow> (error + Document) \<times> IndexStore" where
  "index ix store nm byteStream declaredType =
     (if declaredType \<notin> set (map fst accept) then (Inl UnsupportedFormat, store)
      else
        (case chunkParts (chunkLength ix) (overlap ix) (extractText ix declaredType byteStream) [] of
           None \<Rightarrow> (Inl ExtractionFailure, store)
         | Some pieces \<Rightarrow>
             let d = newId ix (documents store);
                 doc = \<lparr>id_d = d, name = nm, chunk_count = length pieces\<rparr>
             in (Inr doc,
                 \<lparr>documents = documents store @ [doc],
                  chunks = chunks store @ mkChunks d pieces\<rparr>)))"

text \<open>
  Modelled from the spec: \<open>remove(documentId)\<close> of section 4.2: "deletes the document and
  all its chunks atomically; fails with NotFound if the id is unknown".
\<close>

definition remove :: "IndexStore \<Rightarrow> jsstring \<Rightarrow> (error + unit) \<times> IndexStore" where
  "remove store docId =
     (if docId \<in> set (map id_d (documents store)) then
        (Inr (),
         \<lparr>documents = filter (\<lambda>d. id_d d \<noteq> docId) (documents store),
          chunks = filter (\<lambda>c. documentId c \<noteq> docId) (chunks store)\<rparr>)
      else (Inl NotFound, store))"

text \<open>
  Modelled from the spec: \<open>list()\<close> of section 4.2: "returns all DocumentRecords; order is
  insertion order".
\<close>

definition list_documents :: "IndexStore \<Rightarrow> Document list" where
  "list_documents store = documents store"

section \<open>The query router and answer synthesizer\<close>

text \<open>
  The server behind \<open>POST /api/query\<close> is not among the sources either. This section
  models it from sections 3 and 4.1 of the specification; its reply is the
  \<open>QueryResponse\<close> that \<open>ChatPage.tsx\<close> declares.
\<close>

text \<open>Modelled from the spec: "RouteDecision: one of the variants {SQL, DOCS, WEB}".\<close>

datatype RouteDecision = SQL | DOCS | WEB

text \<open>
  Modelled from the spec: the route as the reply carries it, under the names the pages
  switch on.
\<close>

fun routeName :: "RouteDecision \<Rightarrow> jsstring" where
  "routeName SQL = js ''sql''"
| "routeName DOCS = js ''docs''"
| "routeName WEB = js ''web''"

text \<open>
  Modelled from the spec: the collaborators of section 6 that the router calls, and the
  strength of each route's signal in a query, which the specification leaves open
  ("design intent, not a fixed algorithm"). The schema snapshot is only handed on to
  them, so its type is a parameter. \<open>translate\<close> gives the structured query text and its
  certainty, \<open>retrieve\<close> the ranked chunks with their scores, \<open>search\<close> the snippets with
  their origins and their agreement, \<open>draft\<close> the answer text.
\<close>

record 's Collaborators =
  signal :: "'s \<Rightarrow> IndexStore \<Rightarrow> jsstring \<Rightarrow> RouteDecision \<Rightarrow> nat"
  translate :: "'s \<Rightarrow> jsstring \<Rightarrow> error + jsstring \<times> real"
  execute :: "jsstring \<Rightarrow> error + jsstring list"
  retrieve :: "IndexStore \<Rightarrow> jsstring \<Rightarrow> (Chunk \<times> real) list"
  topK :: nat
  search :: "jsstring \<Rightarrow> error + (jsstring \<times> jsstring) list \<times> real"
  draft :: "jsstring \<Rightarrow> jsstring list \<Rightarrow> error + jsstring"

text \<open>
  Modelled from the spec: the tie-break of section 4.1, "fixed subsystem priority order
  SQL > DOCS > WEB".
\<close>

definition priority :: "RouteDecision list" where
  "priority = [SQL, DOCS, WEB]"

text \<open>
  Modelled from the spec: the classification of section 4.1. The candidates are the routes
  whose signal no other route's exceeds, in priority order; "ties or low-signal queries
  must still resolve to exactly one route", the first candidate.
\<close>

definition candidates :: "(RouteDecision \<Rightarrow> nat) \<Rightarrow> RouteDecision list" where
  "candidates sig = filter (\<lambda>r. list_all (\<lambda>r'. sig r' \<le> sig r) priority) priority"

text \<open>
  Modelled from the spec: "exactly one is chosen per query": the first candidate. There is
  always one; \<open>WEB\<close>, the fallback of section 1, stands for the case that cannot arise.
\<close>

definition classify :: "(RouteDecision \<Rightarrow> nat) \<Rightarrow> RouteDecision" where
  "classify sig = (case candidates sig of [] \<Rightarrow> WEB | r # _ \<Rightarrow> r)"

text \<open>
  Modelled from the spec: "sources lists the distinct originating document
  identifiers/names in the order first referenced": every identifier once, at its first
  place.
\<close>

fun firstReferenced :: "'a list \<Rightarrow> 'a list" where
  "firstReferenced [] = []"
| "firstReferenced (x # xs) = x # filter (\<lambda>y. y \<noteq> x) (firstReferenced xs)"

text \<open>Modelled from the spec: the place of the first reference to \<open>x\<close> in \<open>xs\<close>.\<close>

definition firstIndex :: "'a list \<Rightarrow> 'a \<Rightarrow> nat" where
  "firstIndex xs x = length (takeWhile (\<lambda>y. y \<noteq> x) xs)"

text \<open>Modelled from the spec: "a single scalar in [0,1]", the nearest to a raw score.\<close>

definition unitInterval :: "real \<Rightarrow> real" where
  "unitInterval x = max 0 (min 1 x)"

text \<open>Modelled from the spec: the explanation a degraded answer gives of a failure.\<close>

fun explain :: "error \<Rightarrow> jsstring" where
  "explain ValidationError = js ''ValidationError''"
| "explain UnsupportedFormat = js ''UnsupportedFormat''"
| "explain ExtractionFailure = js ''ExtractionFailure''"
| "explain NotFound = js ''NotFound''"
| "explain TranslationFailure = js ''TranslationFailure''"
| "explain ExecutionError = js ''ExecutionError''"
| "explain GenerationError = js ''GenerationError''"
| "explain RouteTimeout = js ''RouteTimeout''"

text \<open>
  Modelled from the spec: the policy of section 7 for a failure of one subsystem, taken
  as "degrade in place" (section 9 leaves the choice open): "respond with an explanation
  and confidence near 0 rather than propagating", on the route already chosen.
\<close>

definition degraded :: "RouteDecision \<Rightarrow> error \<Rightarrow> QueryResponse" where
  "degraded r e =
     \<lparr>answer = explain e, sources = [], sql_executed = None, confidence = Num 0,
      route = routeName r\<rparr>"

text \<open>
  Modelled from the spec: answer synthesis. The generator drafts the answer from the
  route's context; the confidence is the route's raw score within [0,1]; a generator
  failure degrades the answer and leaves the rest of the reply.
\<close>

definition synthesize ::
  "'s Collaborators \<Rightarrow> RouteDecision \<Rightarrow> jsstring \<Rightarrow> jsstring list \<Rightarrow> jsstring list \<Rightarrow>
   jsstring option \<Rightarrow> real \<Rightarrow> QueryResponse" where
  "synthesize c r q context srcs sql score =
     (case draft c q context of
        Inl e \<Rightarrow>
          \<lparr>answer = explain e, sources = srcs, sql_executed = sql, confidence = Num 0,
           route = routeName r\<rparr>
      | Inr txt \<Rightarrow>
          \<lparr>answer = txt, sources = srcs, sql_executed = sql,
           confidence = Num (unitInterval score), route = routeName r\<rparr>)"

text \<open>
  Modelled from the spec: the SQL route, "translate query, structured query text,
  execute against the relational store; on success, sqlExecuted is the literal translated
  query, sources is empty, answer is a natural-language rendering of the result rows".
\<close>

definition answerSQL :: "'s Collaborators \<Rightarrow> 's \<Rightarrow> jsstring \<Rightarrow> QueryResponse" where
  "answerSQL c schema q =
     (case translate c schema q of
        Inl e \<Rightarrow> degraded SQL e
      | Inr (sql, certainty) \<Rightarrow>
          (case execute c sql of
             Inl e \<Rightarrow> degraded SQL e
           | Inr rows \<Rightarrow> synthesize c SQL q rows [] (Some sql) certainty))"

text \<open>Modelled from the spec: the retrieved chunks, "top-K", best first.\<close>

definition retrieved :: "'s Collaborators \<Rightarrow> IndexStore \<Rightarrow> jsstring \<Rightarrow> (Chunk \<times> real) list" where
  "retrieved c corpus q = take (topK c) (retrieve c corpus q)"

text \<open>
  Modelled from the spec: the DOCS route, "retrieve top-K chunks, synthesize answer
  grounded only in retrieved text; sources lists the distinct originating document
  identifiers in the order first referenced; sqlExecuted is absent". The raw score is
  the best retrieval score.
\<close>

definition answerDOCS :: "'s Collaborators \<Rightarrow> IndexStore \<Rightarrow> jsstring \<Rightarrow> QueryResponse" where
  "answerDOCS c corpus q =
     (let hits = retrieved c corpus q
      in synthesize c DOCS q (map (text_c \<circ> fst) hits)
           (firstReferenced (map (documentId \<circ> fst) hits)) None
           (case hits of [] \<Rightarrow> 0 | h # _ \<Rightarrow> snd h))"

text \<open>
  Modelled from the spec: the WEB route, "query external search, synthesize answer from
  snippets; sources lists snippet origins; sqlExecuted is absent".
\<close>

definition answerWEB :: "'s Collaborators \<Rightarrow> jsstring \<Rightarrow> QueryResponse" where
  "answerWEB c q =
     (case search c q of
        Inl e \<Rightarrow> degraded WEB e
      | Inr (snippets, agreement) \<Rightarrow>
          synthesize c WEB q (map fst snippets) (map snd snippets) None agreement)"

text \<open>
  Modelled from the spec: the router of section 4.1. "Empty input is rejected with a
  validation error"; every other query is classified into one route and answered by that
  route's subsystem.
\<close>

definition answerQuery ::
  "'s Collaborators \<Rightarrow> 's \<Rightarrow> IndexStore \<Rightarrow> jsstring \<Rightarrow> error + QueryResponse" where
  "answerQuery c schema corpus q =
     (if trim q = [] then Inl ValidationError
      else
        Inr (case classify (signal c schema corpus q) of
               SQL \<Rightarrow> answerSQL c schema q
             | DOCS \<Rightarrow> answerDOCS c corpus q
             | WEB \<Rightarrow> answerWEB c q))"

section \<open>The routing test harness\<close>

text \<open>
  \<open>TestPage.tsx\<close> declares the shapes of the harness's replies: \<open>TestQuery\<close>,
  \<open>TestResult\<close>, \<open>TestResults\<close> and the \<open>{ total; passed }\<close> of its two tables, which keep
  the order of their keys. Counts are natural numbers; a result's confidence and time and
  the aggregate's two rates are reals.
\<close>

record TestQuery =
  id_q :: jsstring
  query :: jsstring
  expected_route :: jsstring
  category :: jsstring

record TestResult =
  id_r :: jsstring
  query :: jsstring
  expected_route :: jsstring
  actual_route :: jsstring
  passed :: bool
  confidence :: real
  execution_time :: real
  category :: jsstring

record Stats =
  total :: nat
  passed :: nat

record TestResults =
  total_tests :: nat
  passed :: nat
  failed :: nat
  success_rate :: real
  average_confidence :: real
  test_details :: "TestResult list"
  results_by_category :: "(jsstring \<times> Stats) list"
  results_by_route :: "(jsstring \<times> Stats) list"

text \<open>
  The server that runs the tests is not among the sources; the rest of this section
  models \<open>runAll\<close> from section 4.3 of the specification.
\<close>

text \<open>
  Modelled from the spec: one test. "Executes each query through the Router, measures
  wall-clock execution time, compares actualRoute to expectedRoute"; "passed =
  (actualRoute == expectedRoute)"; a failure of the router "is recorded as a failed
  TestResult with the error captured in place of an answer", here in place of the route.
  The router and the time its call took are parameters.
\<close>

definition runOne ::
  "(jsstring \<Rightarrow> error + QueryResponse) \<Rightarrow> (jsstring \<Rightarrow> real) \<Rightarrow> TestQuery \<Rightarrow> TestResult" where
  "runOne router elapsed tq =
     (case router (TestQuery.query tq) of
        Inr resp \<Rightarrow>
          \<lparr>id_r = id_q tq, query = TestQuery.query tq,
           expected_route = TestQuery.expected_route tq,
           actual_route = QueryResponse.route resp,
           passed = (QueryResponse.route resp = TestQuery.expected_route tq),
           confidence = (case QueryResponse.confidence resp of Num x \<Rightarrow> x | _ \<Rightarrow> 0),
           execution_time = elapsed (TestQuery.query tq),
           category = TestQuery.category tq\<rparr>
      | Inl e \<Rightarrow>
          \<lparr>id_r = id_q tq, query = TestQuery.query tq,
           expected_route = TestQuery.expected_route tq,
           actual_route = explain e, passed = False, confidence = 0,
           execution_time = elapsed (TestQuery.query tq),
           category = TestQuery.category tq\<rparr>)"

text \<open>
  Modelled from the spec: one more result under key \<open>k\<close> in a table "mapping category to
  {total, passed}": the key's entry counts it, and a key not seen before gets an entry at
  the end.
\<close>

fun bump :: "jsstring \<Rightarrow> bool \<Rightarrow> (jsstring \<times> Stats) list \<Rightarrow> (jsstring \<times> Stats) list" where
  "bump k p [] = [(k, \<lparr>total = 1, passed = (if p then 1 else 0)\<rparr>)]"
| "bump k p ((k', s) # rest) =
     (if k' = k
      then (k', \<lparr>total = total s + 1, passed = Stats.passed s + (if p then 1 else 0)\<rparr>) # rest
      else (k', s) # bump k p rest)"

text \<open>
  Modelled from the spec: a table "mapping category to {total, passed}" (or route to the
  same) of a list of results, counted one result after the other.
\<close>

definition tallyBy :: "(TestResult \<Rightarrow> jsstring) \<Rightarrow> TestResult list \<Rightarrow> (jsstring \<times> Stats) list" where
  "tallyBy key rs = foldl (\<lambda>table r. bump (key r) (TestResult.passed r) table) [] rs"

text \<open>
  Modelled from the spec: \<open>runAll(testQueries)\<close>, which "produces a TestResults aggregate
  as defined in section 3": the counts of all, passed and failed results, "successRate =
  passed/totalTests", the mean confidence, the results, and the tables by category and by
  (expected) route. Both rates are 0 for an empty run.
\<close>

definition runAll ::
  "(jsstring \<Rightarrow> error + QueryResponse) \<Rightarrow> (jsstring \<Rightarrow> real) \<Rightarrow> TestQuery list \<Rightarrow> TestResults" where
  "runAll router elapsed testQueries =
     (let details = map (runOne router elapsed) testQueries;
          n = length details;
          p = length (filter TestResult.passed details);
          f = length (filter (\<lambda>r. \<not> TestResult.passed r) details)
      in \<lparr>total_tests = n, passed = p, failed = f,
          success_rate = (if n = 0 then 0 else real p / real n),
          average_confidence =
            (if n = 0 then 0 else sum_list (map TestResult.confidence details) / real n),
          test_details = details,
          results_by_category = tallyBy TestResult.category details,
          results_by_route = tallyBy TestResult.expected_route details\<rparr>)"

section \<open>Example values\<close>

text \<open>
  Concrete collaborators, stores and tests, at which the theorems below are instantiated.
  The example signals send "How many employees are there?" to SQL, "How many vacation days
  do employees get?" to DOCS and "What is the stock price today?" to WEB (the scenarios of
  section 8 of the specification); every other query has three equal signals.
\<close>

definition exampleCollaborators :: "unit Collaborators" where
  "exampleCollaborators =
     \<lparr>signal = (\<lambda>schema corpus q r.
        case r of
          SQL \<Rightarrow> if q = js ''How many employees are there?'' then 2 else 0
        | DOCS \<Rightarrow> if q = js ''How many vacation days do employees get?'' then 2 else 0
        | WEB \<Rightarrow> if q = js ''What is the stock price today?'' then 1 else 0),
      translate = (\<lambda>schema q.
        if q = js ''How many employees are there?''
        then Inr (js ''SELECT COUNT(*) FROM employees'', 0.9)
        else Inl TranslationFailure),
      execute = (\<lambda>sql. Inr [js ''42'']),
      retrieve = (\<lambda>corpus q. map (\<lambda>c. (c, 0.5)) (chunks corpus)),
      topK = 3,
      search = (\<lambda>q. Inr ([(js ''snippet'', js ''example.org'')], 0.7)),
      draft = (\<lambda>q context. Inr (concat context))\<rparr>"

definition exampleCorpus :: IndexStore where
  "exampleCorpus =
     \<lparr>documents =
        [\<lparr>id_d = js ''leave'', name = js ''Leave Policy'', chunk_count = 2\<rparr>,
         \<lparr>id_d = js ''travel'', name = js ''Travel Policy'', chunk_count = 1\<rparr>],
      chunks =
        [\<lparr>id_c = (js ''leave'', 0), documentId = js ''leave'', text_c = js ''Employees get '',
          positionalOrder = 0\<rparr>,
         \<lparr>id_c = (js ''travel'', 0), documentId = js ''travel'', text_c = js ''Book early. '',
          positionalOrder = 0\<rparr>,
         \<lparr>id_c = (js ''leave'', 1), documentId = js ''leave'', text_c = js ''15 vacation days.'',
          positionalOrder = 1\<rparr>]\<rparr>"

text \<open>
  The example extractor reads every byte as one part of three equal code units and cannot
  read a zero byte.
\<close>

definition exampleIndexer :: Indexer where
  "exampleIndexer =
     \<lparr>extractText = (\<lambda>declaredType bytes.
        map (\<lambda>b. if b = 0 then None else Some [ucast b, ucast b, ucast b]) bytes),
      newId = (\<lambda>docs. js ''doc'' @ replicate (length docs) 0x27),
      chunkLength = 2,
      overlap = 1\<rparr>"

definition exampleRouter :: "jsstring \<Rightarrow> error + QueryResponse" where
  "exampleRouter q =
     (if q = js ''a'' then
        Inr \<lparr>answer = js ''42'', sources = [], sql_executed = Some (js ''SELECT 42''),
             confidence = Num 0.9, route = js ''sql''\<rparr>
      else Inl RouteTimeout)"

definition exampleTests :: "TestQuery list" where
  "exampleTests =
     [\<lparr>id_q = js ''1'', query = js ''a'', expected_route = js ''sql'', category = js ''count''\<rparr>,
      \<lparr>id_q = js ''2'', query = js ''a'', expected_route = js ''docs'', category = js ''policy''\<rparr>,
      \<lparr>id_q = js ''3'', query = js ''b'', expected_route = js ''sql'', category = js ''count''\<rparr>]"

section \<open>Properties of the display functions\<close>

lemma length_colors: "length colors = 7"
  by (simp add: colors_def)

text \<open>
  C9. The colour of a test category is always defined: for every category string, the
  index \<open>category.length % colors.length\<close> is below 7 (and, a natural number, at least 0),
  so \<open>getCategoryColor\<close> returns one of the seven colour classes, never \<open>undefined\<close>; the
  empty string gets the first class.
\<close>

theorem getCategoryColor_in_bounds:
  "length categ mod length colors < 7 \<and>
   (\<exists>c. getCategoryColor categ = Some c \<and> c \<in> set colors) \<and>
   getCategoryColor [] = Some (js ''bg-red-100 text-red-800'')"
proof -
  have b: "length categ mod length colors < length colors"
    by (simp add: length_colors)
  have e: "getCategoryColor [] = Some (js ''bg-red-100 text-red-800'')"
    by (simp add: getCategoryColor_def at_index_def colors_def)
  from b have "getCategoryColor categ = Some (colors ! (length categ mod length colors))"
    by (simp add: getCategoryColor_def at_index_def)
  moreover from b have "colors ! (length categ mod length colors) \<in> set colors"
    by (rule nth_mem)
  ultimately show ?thesis using b e by (simp add: length_colors)
qed

lemma js_Nil: "js [] = []"
  by (simp add: js_def)

lemma js_Cons: "js (c # cs) = of_nat (of_char c) # js cs"
  by (simp add: js_def)

text \<open>
  C10, as the code has it. \<open>getConfidenceColor\<close> does not tell zero from missing: for the
  confidence 0 it returns the grey class it returns for an undefined confidence, not the
  red class of the low tier, which a confidence below 0.6 other than 0 gets (0.5 here;
  the double of the literal \<open>0.6\<close> itself is in the yellow tier). The rendering does tell
  them apart: an assistant message with confidence 0 shows a confidence badge, in that
  grey class, while a message without a confidence shows no confidence badge at all.
\<close>

theorem getConfidenceColor_zero_is_grey:
  "getConfidenceColor (Some (Num 0)) = getConfidenceColor None \<and>
   getConfidenceColor (Some (Num 0)) = js ''bg-gray-100 text-gray-800'' \<and>
   getConfidenceColor (Some (Num 0)) \<noteq> js ''bg-red-100 text-red-800'' \<and>
   getConfidenceColor (Some (Num 0.5)) = js ''bg-red-100 text-red-800'' \<and>
   getConfidenceColor (Some (Num literal_0_6)) = js ''bg-yellow-100 text-yellow-800'' \<and>
   confidenceBadge (m\<lparr>type_m := assistant, Message.confidence := Some (Num 0)\<rparr>) =
     Some (js ''bg-gray-100 text-gray-800'') \<and>
   confidenceBadge (m\<lparr>Message.confidence := None\<rparr>) = None \<and>
   (confidenceBadge m = None) = (\<not> (type_m m = assistant \<and> Message.confidence m \<noteq> None))"
  by (auto simp: getConfidenceColor_def confidenceBadge_def literal_0_6_def literal_0_8_def
        js_Nil js_Cons split: option.splits)

text \<open>
  Against C10 as stated ("rendered as if no confidence were reported"): the same
  assistant message shows a grey confidence badge when its confidence is 0 and no
  confidence badge when it has none.
\<close>

theorem zero_confidence_still_draws_badge:
  "confidenceBadge
     \<lparr>id_m = 1, type_m = assistant, content = js ''hello'', Message.sources = Some [],
      sqlExecuted = None, Message.confidence = Some (Num 0),
      Message.route = Some (js ''sql''), timestamp = 0\<rparr> =
     Some (js ''bg-gray-100 text-gray-800'') \<and>
   confidenceBadge
     \<lparr>id_m = 1, type_m = assistant, content = js ''hello'', Message.sources = Some [],
      sqlExecuted = None, Message.confidence = None,
      Message.route = Some (js ''sql''), timestamp = 0\<rparr> = None"
  by (simp add: getConfidenceColor_def confidenceBadge_def)

text \<open>
  C8, as the code has it. The display mapping sends \<open>'sql'\<close> to \<open>'SQL Agent'\<close>, \<open>'docs'\<close>
  to \<open>'Documents'\<close> and \<open>'web'\<close> to \<open>'Web Search'\<close>, and every other argument, an absent
  route and any other string alike, to \<open>'Unknown'\<close> (\<open>getRouteColor\<close> likewise to grey). The
  badge is drawn only for an assistant message whose route is a non-empty string, so the
  label \<open>'Unknown'\<close> is shown exactly for a route that is present, non-empty and none of
  the three; an absent route shows no badge.
\<close>

theorem getRouteLabel_cases:
  "getRouteLabel (Some (js ''sql'')) = js ''SQL Agent'' \<and>
   getRouteLabel (Some (js ''docs'')) = js ''Documents'' \<and>
   getRouteLabel (Some (js ''web'')) = js ''Web Search'' \<and>
   (getRouteLabel r = js ''Unknown'') =
     (r \<notin> {Some (js ''sql''), Some (js ''docs''), Some (js ''web'')}) \<and>
   (getRouteColor r = js ''bg-gray-100 text-gray-800'') =
     (r \<notin> {Some (js ''sql''), Some (js ''docs''), Some (js ''web'')}) \<and>
   (routeBadge m = None) =
     (\<not> (type_m m = assistant \<and> (\<exists>x. Message.route m = Some x \<and> x \<noteq> []))) \<and>
   (\<exists>cls. routeBadge m = Some (cls, js ''Unknown'')) =
     (type_m m = assistant \<and>
      (\<exists>x. Message.route m = Some x \<and> x \<noteq> [] \<and>
           x \<noteq> js ''sql'' \<and> x \<noteq> js ''docs'' \<and> x \<noteq> js ''web''))"
  by (auto simp: getRouteLabel_def getRouteColor_def routeBadge_def js_Nil js_Cons
        split: option.splits)

text \<open>
  Against C8 as stated ("only an absent route to 'Unknown'"): the route \<open>'xyz'\<close>, present
  and not one of the three, is labelled \<open>'Unknown'\<close> and drawn so, and a message with no
  route has no badge at all.
\<close>

theorem getRouteLabel_unknown_for_other_route:
  "getRouteLabel (Some (js ''xyz'')) = js ''Unknown'' \<and>
   routeBadge
     \<lparr>id_m = 1, type_m = assistant, content = js ''hello'', Message.sources = Some [],
      sqlExecuted = None, Message.confidence = Some (Num 0.5),
      Message.route = Some (js ''xyz''), timestamp = 0\<rparr> =
     Some (js ''bg-gray-100 text-gray-800'', js ''Unknown'') \<and>
   routeBadge
     \<lparr>id_m = 1, type_m = assistant, content = js ''hello'', Message.sources = None,
      sqlExecuted = None, Message.confidence = None,
      Message.route = None, timestamp = 0\<rparr> = None"
  by (simp add: getRouteLabel_def getRouteColor_def routeBadge_def js_Nil js_Cons)

section \<open>Properties of the submission\<close>

lemma all_dropWhile: "(\<forall>x\<in>set (dropWhile P s). P x) = (\<forall>x\<in>set s. P x)"
  by (induction s) auto

lemma trim_empty_iff: "trim s = [] \<longleftrightarrow> list_all isWhiteSpace s"
  by (simp add: trim_def dropWhile_eq_Nil_conv list_all_iff all_dropWhile)

text \<open>
  What \<open>handleSubmit\<close> does with a query that is non-empty after trimming, submitted
  while no request is pending: it posts the query once, clears the input and appends the
  user's message and one assistant message, which carries the route, the confidence and
  the answer of the reply as they came, or none of them when the request failed.
\<close>

lemma handleSubmit_posts_once:
  "trim (inputValue st) \<noteq> [] \<and> \<not> isLoading st \<Longrightarrow>
   (\<exists>u a. handleSubmit post t0 t1 st =
            (\<lparr>messages = messages st @ [u, a], inputValue = [], isLoading = False\<rparr>,
             [inputValue st]) \<and>
          type_m u = user \<and> content u = inputValue st \<and> type_m a = assistant \<and>
          (case post (inputValue st) of
             Some d \<Rightarrow>
               Message.route a = Some (QueryResponse.route d) \<and>
               Message.confidence a = Some (QueryResponse.confidence d) \<and>
               content a = answer d
           | None \<Rightarrow> Message.route a = None \<and> Message.confidence a = None))"
  by (simp add: handleSubmit_def Let_def split: option.splits)

text \<open>
  C4, as the code has it. An input that is empty after trimming is dropped by
  \<open>handleSubmit\<close>: the state is left as it was and nothing is posted, so the query is never
  routed and never produces a \<open>QueryResponse\<close>, and no message, no validation error
  either, is added; the submit button is disabled for it.
\<close>

theorem handleSubmit_drops_empty_query:
  "trim (inputValue st) = [] \<Longrightarrow>
   handleSubmit post t0 t1 st = (st, []) \<and> submitDisabled st"
  by (simp add: handleSubmit_def submitDisabled_def)

theorem handleSubmit_drops_empty_query_witness:
  "trim (js ''  '') = [] \<and>
   handleSubmit (\<lambda>q. None) 5 7 \<lparr>messages = [], inputValue = js ''  '', isLoading = False\<rparr> =
     (\<lparr>messages = [], inputValue = js ''  '', isLoading = False\<rparr>, []) \<and>
   submitDisabled \<lparr>messages = [], inputValue = js ''  '', isLoading = False\<rparr>"
proof -
  have e: "trim (js ''  '') = []"
    by (simp add: trim_def isWhiteSpace_def js_Nil js_Cons)
  then have "trim (inputValue \<lparr>messages = [], inputValue = js ''  '', isLoading = False\<rparr>) = []"
    by simp
  from handleSubmit_drops_empty_query [OF this, of "\<lambda>q. None" 5 7] e
  show ?thesis by simp
qed

text \<open>
  Against C4 as stated ("rejected with a validation error"): a space, a tab and a
  no-break space are empty after trimming, and submitting them, with a server that would
  fail any request, leaves the state as it was: no message is shown, an error message
  no more than any other, and nothing is posted.
\<close>

theorem empty_query_shows_no_error:
  "trim [0x20, 0x09, 0xA0] = [] \<and>
   handleSubmit (\<lambda>q. None) 5 7
     \<lparr>messages = [], inputValue = [0x20, 0x09, 0xA0], isLoading = False\<rparr> =
     (\<lparr>messages = [], inputValue = [0x20, 0x09, 0xA0], isLoading = False\<rparr>, [])"
  by (simp add: handleSubmit_def trim_def isWhiteSpace_def)

section \<open>Properties of the router model\<close>

lemma classify_eq:
  "classify sig =
     (if sig DOCS \<le> sig SQL \<and> sig WEB \<le> sig SQL then SQL
      else if sig WEB \<le> sig DOCS then DOCS else WEB)"
  by (auto simp: classify_def candidates_def priority_def)

lemma classify_maximal: "sig r \<le> sig (classify sig)"
  by (cases r) (auto simp: classify_eq)

lemma firstIndex_priority:
  "firstIndex priority SQL = 0" "firstIndex priority DOCS = 1" "firstIndex priority WEB = 2"
  by (simp_all add: firstIndex_def priority_def)

lemma classify_first_among_ties:
  "sig r = sig (classify sig) \<Longrightarrow> firstIndex priority (classify sig) \<le> firstIndex priority r"
  by (cases r) (auto simp: classify_eq firstIndex_priority split: if_splits)

lemma route_answerSQL: "QueryResponse.route (answerSQL c schema q) = routeName SQL"
  by (simp add: answerSQL_def degraded_def synthesize_def split: sum.splits prod.splits)

lemma route_answerDOCS: "QueryResponse.route (answerDOCS c corpus q) = routeName DOCS"
  by (simp add: answerDOCS_def synthesize_def Let_def split: sum.splits)

lemma route_answerWEB: "QueryResponse.route (answerWEB c q) = routeName WEB"
  by (simp add: answerWEB_def degraded_def synthesize_def split: sum.splits prod.splits)


lemmas example_simps =
  js_Nil js_Cons trim_def isWhiteSpace_def exampleCollaborators_def exampleCorpus_def










lemma set_firstReferenced: "set (firstReferenced xs) = set xs"
  by (induction xs) auto

lemma distinct_firstReferenced: "distinct (firstReferenced xs)"
  by (induction xs) (auto simp: set_firstReferenced)

lemma firstIndex_Cons:
  "firstIndex (x # xs) y = (if y = x then 0 else Suc (firstIndex xs y))"
  by (simp add: firstIndex_def)

lemma firstReferenced_in_order:
  "sorted_wrt (\<lambda>a b. firstIndex xs a < firstIndex xs b) (firstReferenced xs)"
proof (induction xs)
  case Nil
  show ?case by simp
next
  case (Cons x xs)
  have "sorted_wrt (\<lambda>a b. firstIndex xs a < firstIndex xs b)
          (filter (\<lambda>y. y \<noteq> x) (firstReferenced xs))"
    using Cons.IH by (rule sorted_wrt_filter)
  then have "sorted_wrt (\<lambda>a b. firstIndex (x # xs) a < firstIndex (x # xs) b)
          (filter (\<lambda>y. y \<noteq> x) (firstReferenced xs))"
    by (rule sorted_wrt_mono_rel [rotated]) (simp add: firstIndex_Cons)
  then show ?case
    by (simp add: firstIndex_Cons)
qed

lemma answerSQL_success:
  "translate c schema q = Inr (sql, certainty) \<Longrightarrow> execute c sql = Inr rows \<Longrightarrow>
   sql_executed (answerSQL c schema q) = Some sql \<and>
   QueryResponse.sources (answerSQL c schema q) = []"
  by (simp add: answerSQL_def synthesize_def split: sum.splits)

lemma answerDOCS_fields:
  "sql_executed (answerDOCS c corpus q) = None \<and>
   QueryResponse.sources (answerDOCS c corpus q) =
     firstReferenced (map (documentId \<circ> fst) (retrieved c corpus q))"
  by (simp add: answerDOCS_def synthesize_def Let_def split: sum.splits)

lemma answerWEB_no_sql: "sql_executed (answerWEB c q) = None"
  by (simp add: answerWEB_def synthesize_def degraded_def split: sum.splits prod.splits)

text \<open>
  C7. In the model, a reply on the SQL route whose translation and execution succeeded
  has the literal translated query as \<open>sql_executed\<close> and no sources; every reply on the
  DOCS or the WEB route has no \<open>sql_executed\<close>; and the sources of a reply on the DOCS
  route are the identifiers of the documents the retrieved chunks come from, each once,
  in the order of their first reference.
\<close>

theorem route_execution_contract:
  "(trim q \<noteq> [] \<and> classify (signal c schema corpus q) = SQL \<and>
    translate c schema q = Inr (sql, certainty) \<and> execute c sql = Inr rows \<longrightarrow>
      (\<exists>resp. answerQuery c schema corpus q = Inr resp \<and> QueryResponse.route resp = js ''sql'' \<and>
              sql_executed resp = Some sql \<and> QueryResponse.sources resp = [])) \<and>
   (trim q \<noteq> [] \<and> classify (signal c schema corpus q) \<noteq> SQL \<longrightarrow>
      (\<exists>resp. answerQuery c schema corpus q = Inr resp \<and>
              QueryResponse.route resp \<in> {js ''docs'', js ''web''} \<and>
              sql_executed resp = None)) \<and>
   (trim q \<noteq> [] \<and> classify (signal c schema corpus q) = DOCS \<longrightarrow>
      (\<exists>resp. answerQuery c schema corpus q = Inr resp \<and> QueryResponse.route resp = js ''docs'' \<and>
              QueryResponse.sources resp =
                firstReferenced (map (documentId \<circ> fst) (retrieved c corpus q)) \<and>
              distinct (QueryResponse.sources resp) \<and>
              set (QueryResponse.sources resp) =
                set (map (documentId \<circ> fst) (retrieved c corpus q)) \<and>
              sorted_wrt
                (\<lambda>a b. firstIndex (map (documentId \<circ> fst) (retrieved c corpus q)) a <
                       firstIndex (map (documentId \<circ> fst) (retrieved c corpus q)) b)
                (QueryResponse.sources resp)))"
proof (cases "classify (signal c schema corpus q)")
  case SQL
  then show ?thesis
    by (simp add: answerQuery_def answerSQL_success route_answerSQL)
next
  case DOCS
  then show ?thesis
    using firstReferenced_in_order [of "map (documentId \<circ> fst) (retrieved c corpus q)"]
    by (simp add: answerQuery_def answerDOCS_fields route_answerDOCS
          distinct_firstReferenced set_firstReferenced)
next
  case WEB
  then show ?thesis
    by (simp add: answerQuery_def answerWEB_no_sql route_answerWEB)
qed

theorem route_execution_contract_witness:
  "(\<exists>resp. answerQuery exampleCollaborators () exampleCorpus (js ''How many employees are there?'') =
            Inr resp \<and>
          QueryResponse.route resp = js ''sql'' \<and>
          sql_executed resp = Some (js ''SELECT COUNT(*) FROM employees'') \<and>
          QueryResponse.sources resp = []) \<and>
   (\<exists>resp. answerQuery exampleCollaborators () exampleCorpus
            (js ''How many vacation days do employees get?'') = Inr resp \<and>
          QueryResponse.route resp = js ''docs'' \<and>
          sql_executed resp = None \<and>
          map (documentId \<circ> fst)
            (retrieved exampleCollaborators exampleCorpus
               (js ''How many vacation days do employees get?'')) =
            [js ''leave'', js ''travel'', js ''leave''] \<and>
          QueryResponse.sources resp = [js ''leave'', js ''travel'']) \<and>
   (\<exists>resp. answerQuery exampleCollaborators () exampleCorpus (js ''What is the stock price today?'') =
            Inr resp \<and>
          QueryResponse.route resp = js ''web'' \<and>
          sql_executed resp = None)"
  using route_execution_contract [where c = exampleCollaborators and schema = "()"
      and corpus = exampleCorpus and q = "js ''How many employees are there?''"
      and sql = "js ''SELECT COUNT(*) FROM employees''" and certainty = "0.9"
      and rows = "[js ''42'']"]
    route_execution_contract [where c = exampleCollaborators and schema = "()"
      and corpus = exampleCorpus and q = "js ''How many vacation days do employees get?''"]
    route_execution_contract [where c = exampleCollaborators and schema = "()"
      and corpus = exampleCorpus and q = "js ''What is the stock price today?''"]
  by (simp add: example_simps classify_eq answerQuery_def answerSQL_def answerDOCS_def
        answerWEB_def retrieved_def degraded_def synthesize_def Let_def)

section \<open>Properties of the indexing model\<close>

text \<open>
  The chunking policy: with a positive chunk length and a smaller overlap, every chunk is
  non-empty and within the length; without overlap, the chunks in order are the text.
\<close>

lemma split_bounded:
  "0 < n \<Longrightarrow> k < n \<Longrightarrow> list_all (\<lambda>c. c \<noteq> [] \<and> length c \<le> n) (split n k xs)"
proof (induction n k xs rule: split.induct)
  case (1 n k xs)
  show ?case
  proof (cases "xs = [] \<or> length xs \<le> n")
    case True
    with "1.prems" show ?thesis
      by (auto simp: split.simps [of n k xs])
  next
    case False
    with "1.prems" "1.IH"
    have "list_all (\<lambda>c. c \<noteq> [] \<and> length c \<le> n) (split n k (drop (n - k) xs))"
      by simp
    with False "1.prems" show ?thesis
      by (auto simp: split.simps [of n k xs])
  qed
qed

lemma split_no_overlap: "0 < n \<Longrightarrow> concat (split n 0 xs) = xs"
proof (induction n "0::nat" xs rule: split.induct)
  case (1 n xs)
  show ?case
  proof (cases "xs = [] \<or> length xs \<le> n")
    case True
    with "1.prems" show ?thesis
      by (auto simp: split.simps [of n 0 xs])
  next
    case False
    with "1.prems" "1.hyps" have "concat (split n 0 (drop n xs)) = drop n xs"
      by simp
    with False "1.prems" show ?thesis
      by (simp add: split.simps [of n 0 xs])
  qed
qed

lemma length_mkChunks: "length (mkChunks d pieces) = length pieces"
  by (simp add: mkChunks_def)

lemma documentId_mkChunks: "list_all (\<lambda>c. documentId c = d) (mkChunks d pieces)"
  by (auto simp: mkChunks_def list_all_iff)

lemma chunkParts_None:
  "chunkParts n k parts pending = None \<longleftrightarrow> None \<in> set parts"
  by (induction n k parts pending rule: chunkParts.induct) auto

lemma index_unsupported:
  "declaredType \<notin> set (map fst accept) \<Longrightarrow>
   index ix store nm bs declaredType = (Inl UnsupportedFormat, store)"
  by (simp add: index_def)

lemma index_unreadable:
  "declaredType \<in> set (map fst accept) \<Longrightarrow> None \<in> set (extractText ix declaredType bs) \<Longrightarrow>
   index ix store nm bs declaredType = (Inl ExtractionFailure, store)"
  using chunkParts_None [of "chunkLength ix" "overlap ix" "extractText ix declaredType bs" "[]"]
  by (simp add: index_def)

lemma index_stored:
  "declaredType \<in> set (map fst accept) \<Longrightarrow>
   chunkParts (chunkLength ix) (overlap ix) (extractText ix declaredType bs) [] = Some pieces \<Longrightarrow>
   index ix store nm bs declaredType =
     (Inr \<lparr>id_d = newId ix (documents store), name = nm, chunk_count = length pieces\<rparr>,
      \<lparr>documents = documents store @
         [\<lparr>id_d = newId ix (documents store), name = nm, chunk_count = length pieces\<rparr>],
       chunks = chunks store @ mkChunks (newId ix (documents store)) pieces\<rparr>)"
  by (simp add: index_def Let_def)

text \<open>
  C5. Indexing in the model is all-or-nothing. \<open>index\<close> fails with \<open>UnsupportedFormat\<close>
  for every declared type outside the supported ones and with \<open>ExtractionFailure\<close> when
  some part of a supported file cannot be extracted, wherever in the file that part is;
  whenever it fails, with either error and no other, the store is what it was, so no
  chunk has been stored. When it succeeds, the document is listed last and exactly
  \<open>chunk_count\<close> chunks, all of that document, have been added.
\<close>

theorem index_all_or_nothing:
  "(declaredType \<notin> set (map fst accept) \<longrightarrow>
      index ix store nm bs declaredType = (Inl UnsupportedFormat, store)) \<and>
   (declaredType \<in> set (map fst accept) \<and> None \<in> set (extractText ix declaredType bs) \<longrightarrow>
      index ix store nm bs declaredType = (Inl ExtractionFailure, store)) \<and>
   (\<forall>e. fst (index ix store nm bs declaredType) = Inl e \<longrightarrow>
      snd (index ix store nm bs declaredType) = store \<and>
      (e = UnsupportedFormat \<or> e = ExtractionFailure)) \<and>
   (\<forall>doc. fst (index ix store nm bs declaredType) = Inr doc \<longrightarrow>
      list_documents (snd (index ix store nm bs declaredType)) = list_documents store @ [doc] \<and>
      (\<exists>new. chunks (snd (index ix store nm bs declaredType)) = chunks store @ new \<and>
             length new = chunk_count doc \<and>
             list_all (\<lambda>c. documentId c = id_d doc) new))"
proof (cases "declaredType \<in> set (map fst accept)")
  case False
  then show ?thesis by (simp add: index_unsupported)
next
  case True
  show ?thesis
  proof (cases "chunkParts (chunkLength ix) (overlap ix) (extractText ix declaredType bs) []")
    case None
    then have "None \<in> set (extractText ix declaredType bs)"
      by (simp add: chunkParts_None)
    with True show ?thesis by (simp add: index_unreadable)
  next
    case (Some pieces)
    then have "None \<notin> set (extractText ix declaredType bs)"
      using chunkParts_None [of "chunkLength ix" "overlap ix" "extractText ix declaredType bs" "[]"]
      by simp
    with True Some show ?thesis
      by (simp add: index_stored list_documents_def length_mkChunks documentId_mkChunks)
  qed
qed

theorem index_all_or_nothing_witness:
  "js ''image/png'' \<notin> set (map fst accept) \<and>
   js ''text/plain'' \<in> set (map fst accept) \<and>
   extractText exampleIndexer (js ''text/plain'') [104, 0, 105] =
     [Some [104, 104, 104], None, Some [105, 105, 105]] \<and>
   index exampleIndexer exampleCorpus (js ''a.png'') [104, 105] (js ''image/png'') =
     (Inl UnsupportedFormat, exampleCorpus) \<and>
   index exampleIndexer exampleCorpus (js ''a.txt'') [104, 0, 105] (js ''text/plain'') =
     (Inl ExtractionFailure, exampleCorpus) \<and>
   fst (index exampleIndexer exampleCorpus (js ''a.txt'') [104, 105] (js ''text/plain'')) =
     Inr \<lparr>id_d = js ''doc'' @ [0x27, 0x27], name = js ''a.txt'', chunk_count = 4\<rparr> \<and>
   chunks (snd (index exampleIndexer exampleCorpus (js ''a.txt'') [104, 105] (js ''text/plain''))) =
     chunks exampleCorpus @
     [\<lparr>id_c = (js ''doc'' @ [0x27, 0x27], 0), documentId = js ''doc'' @ [0x27, 0x27],
       text_c = [104, 104], positionalOrder = 0\<rparr>,
      \<lparr>id_c = (js ''doc'' @ [0x27, 0x27], 1), documentId = js ''doc'' @ [0x27, 0x27],
       text_c = [104, 104], positionalOrder = 1\<rparr>,
      \<lparr>id_c = (js ''doc'' @ [0x27, 0x27], 2), documentId = js ''doc'' @ [0x27, 0x27],
       text_c = [105, 105], positionalOrder = 2\<rparr>,
      \<lparr>id_c = (js ''doc'' @ [0x27, 0x27], 3), documentId = js ''doc'' @ [0x27, 0x27],
       text_c = [105, 105], positionalOrder = 3\<rparr>]"
proof -
  have s: "split 2 (Suc 0) [c, c, c :: code_unit] = [[c, c], [c, c]]" for c
    by (simp add: split.simps)
  show ?thesis
    using index_all_or_nothing [of "js ''image/png''" exampleIndexer exampleCorpus "js ''a.png''" "[104, 105]"]
      index_all_or_nothing [of "js ''text/plain''" exampleIndexer exampleCorpus "js ''a.txt''" "[104, 0, 105]"]
      index_all_or_nothing [of "js ''text/plain''" exampleIndexer exampleCorpus "js ''a.txt''" "[104, 105]"]
    by (simp add: index_def accept_def exampleIndexer_def exampleCorpus_def mkChunks_def
          js_Nil js_Cons Let_def s)
qed

text \<open>
  C6. In the model, \<open>remove\<close> of a known identifier succeeds and deletes the document
  together with all of its chunks: afterwards the list of documents is the old one
  without that identifier, no chunk of that document remains, the other documents'
  chunks are untouched, and removing it again fails. \<open>remove\<close> of an unknown identifier
  fails with \<open>NotFound\<close> and leaves the store as it was; it never reports success.
\<close>

theorem remove_deletes_or_NotFound:
  "(docId \<in> set (map id_d (list_documents store)) \<longrightarrow>
      fst (remove store docId) = Inr () \<and>
      docId \<notin> set (map id_d (list_documents (snd (remove store docId)))) \<and>
      filter (\<lambda>c. documentId c = docId) (chunks (snd (remove store docId))) = [] \<and>
      list_documents (snd (remove store docId)) =
        filter (\<lambda>d. id_d d \<noteq> docId) (list_documents store) \<and>
      filter (\<lambda>c. documentId c \<noteq> docId) (chunks (snd (remove store docId))) =
        filter (\<lambda>c. documentId c \<noteq> docId) (chunks store) \<and>
      fst (remove (snd (remove store docId)) docId) = Inl NotFound) \<and>
   (docId \<notin> set (map id_d (list_documents store)) \<longrightarrow>
      remove store docId = (Inl NotFound, store))"
  by (auto simp: remove_def list_documents_def filter_empty_conv)

theorem remove_deletes_or_NotFound_witness:
  "js ''leave'' \<in> set (map id_d (list_documents exampleCorpus)) \<and>
   js ''nope'' \<notin> set (map id_d (list_documents exampleCorpus)) \<and>
   remove exampleCorpus (js ''leave'') =
     (Inr (),
      \<lparr>documents = [\<lparr>id_d = js ''travel'', name = js ''Travel Policy'', chunk_count = 1\<rparr>],
       chunks = [\<lparr>id_c = (js ''travel'', 0), documentId = js ''travel'',
                 text_c = js ''Book early. '', positionalOrder = 0\<rparr>]\<rparr>) \<and>
   remove exampleCorpus (js ''nope'') = (Inl NotFound, exampleCorpus)"
  using remove_deletes_or_NotFound [of "js ''leave''" exampleCorpus]
    remove_deletes_or_NotFound [of "js ''nope''" exampleCorpus]
  by (simp add: remove_def list_documents_def exampleCorpus_def js_Nil js_Cons)

section \<open>Properties of the harness model\<close>

lemma bump_total:
  "sum_list (map (total \<circ> snd) (bump k p t)) = Suc (sum_list (map (total \<circ> snd) t))"
  by (induction t) auto

lemma bump_passed_le_total:
  "list_all (\<lambda>(k, s). Stats.passed s \<le> total s) t \<Longrightarrow>
   list_all (\<lambda>(k, s). Stats.passed s \<le> total s) (bump k p t)"
  by (induction t) auto

lemma foldl_bump_total:
  "sum_list (map (total \<circ> snd) (foldl (\<lambda>table r. bump (key r) (TestResult.passed r) table) t rs)) =
   sum_list (map (total \<circ> snd) t) + length rs"
  by (induction rs arbitrary: t) (simp_all add: bump_total)

lemma foldl_bump_passed_le_total:
  "list_all (\<lambda>(k, s). Stats.passed s \<le> total s) t \<Longrightarrow>
   list_all (\<lambda>(k, s). Stats.passed s \<le> total s)
     (foldl (\<lambda>table r. bump (key r) (TestResult.passed r) table) t rs)"
  by (induction rs arbitrary: t) (simp_all add: bump_passed_le_total)

lemma tallyBy_total: "sum_list (map (total \<circ> snd) (tallyBy key rs)) = length rs"
  by (simp add: tallyBy_def foldl_bump_total)

lemma tallyBy_passed_le_total:
  "list_all (\<lambda>(k, s). Stats.passed s \<le> total s) (tallyBy key rs)"
  by (simp add: tallyBy_def foldl_bump_passed_le_total)

text \<open>
  C3. Every aggregate that \<open>runAll\<close> produces in the model is consistent: the passed and
  the failed results together are all the tests, one result per test query; in every
  entry of the table by category and of the table by route \<open>passed\<close> is at most \<open>total\<close>;
  and the totals of the table by category (as of the table by route) add up to the
  number of tests.
\<close>

theorem runAll_aggregate_invariant:
  "TestResults.passed (runAll router elapsed tqs) + failed (runAll router elapsed tqs) =
     total_tests (runAll router elapsed tqs) \<and>
   total_tests (runAll router elapsed tqs) = length tqs \<and>
   (\<forall>(k, s) \<in> set (results_by_category (runAll router elapsed tqs)). Stats.passed s \<le> total s) \<and>
   (\<forall>(k, s) \<in> set (results_by_route (runAll router elapsed tqs)). Stats.passed s \<le> total s) \<and>
   sum_list (map (total \<circ> snd) (results_by_category (runAll router elapsed tqs))) =
     total_tests (runAll router elapsed tqs) \<and>
   sum_list (map (total \<circ> snd) (results_by_route (runAll router elapsed tqs))) =
     total_tests (runAll router elapsed tqs)"
proof -
  let ?ds = "map (runOne router elapsed) tqs"
  have pf: "length (filter TestResult.passed ?ds) + length (filter (\<lambda>r. \<not> TestResult.passed r) ?ds)
            = length ?ds"
    by (rule sum_length_filter_compl)
  have c: "\<forall>(k, s) \<in> set (tallyBy TestResult.category ?ds). Stats.passed s \<le> total s"
    using tallyBy_passed_le_total [of TestResult.category ?ds] by (simp add: list_all_iff)
  have r: "\<forall>(k, s) \<in> set (tallyBy TestResult.expected_route ?ds). Stats.passed s \<le> total s"
    using tallyBy_passed_le_total [of TestResult.expected_route ?ds] by (simp add: list_all_iff)
  show ?thesis
    using pf c r by (simp add: runAll_def Let_def tallyBy_total)
qed

theorem runAll_aggregate_invariant_witness:
  "results_by_category (runAll exampleRouter (\<lambda>q. 12) exampleTests) =
     [(js ''count'', \<lparr>total = 2, passed = 1\<rparr>), (js ''policy'', \<lparr>total = 1, passed = 0\<rparr>)] \<and>
   results_by_route (runAll exampleRouter (\<lambda>q. 12) exampleTests) =
     [(js ''sql'', \<lparr>total = 2, passed = 1\<rparr>), (js ''docs'', \<lparr>total = 1, passed = 0\<rparr>)] \<and>
   TestResults.passed (runAll exampleRouter (\<lambda>q. 12) exampleTests) = 1 \<and>
   failed (runAll exampleRouter (\<lambda>q. 12) exampleTests) = 2 \<and>
   total_tests (runAll exampleRouter (\<lambda>q. 12) exampleTests) = 3"
  using runAll_aggregate_invariant [of exampleRouter "\<lambda>q. 12" exampleTests]
  by (simp add: runAll_def runOne_def tallyBy_def exampleRouter_def exampleTests_def
        js_Nil js_Cons Let_def)

end
